theory Spec2Isabelle
  imports Main
begin

section \<open>Python values used by \<^verbatim>\<open>main.py\<close>\<close>

text \<open>
  Text is a \<open>string\<close>: each \<open>char\<close> stands for one code point below 256, so the
  model covers every Python \<^verbatim>\<open>str\<close> over that range. The operations below are
  the \<^verbatim>\<open>str\<close> methods the script calls, restricted to that range.
\<close>

type_synonym path = string

datatype exc_class =
    ValueError | IndexError | TypeError
  | OSError | FileNotFoundError | PermissionError | SameFileError
  | RequestException
  | ImportError | ModuleNotFoundError
  | AttributeError
  | SystemExit | KeyboardInterrupt

text \<open>An exception object: its class and its message (\<^verbatim>\<open>str(e)\<close>).\<close>

datatype exc = Exc exc_class string

fun exc_str :: "exc \<Rightarrow> string" where
  "exc_str (Exc c m) = m"

text \<open>\<^verbatim>\<open>except ImportError\<close> catches the class and its subclass.\<close>

fun isinstance_ImportError :: "exc \<Rightarrow> bool" where
  "isinstance_ImportError (Exc c m) = (c = ImportError \<or> c = ModuleNotFoundError)"

text \<open>
  \<^verbatim>\<open>except Exception\<close> catches everything but the classes that derive from
  \<^verbatim>\<open>BaseException\<close> directly.
\<close>

fun isinstance_Exception :: "exc \<Rightarrow> bool" where
  "isinstance_Exception (Exc c m) = (c \<noteq> SystemExit \<and> c \<noteq> KeyboardInterrupt)"

subsection \<open>String methods\<close>

text \<open>\<^verbatim>\<open>str.lower\<close>: A to Z, and the upper-case letters of the range 192 to 222.\<close>

definition lower_char :: "char \<Rightarrow> char" where
  "lower_char c =
     (let n = (of_char c :: nat)
      in if (65 \<le> n \<and> n \<le> 90) \<or> (192 \<le> n \<and> n \<le> 222 \<and> n \<noteq> 215)
         then char_of (n + 32) else c)"

definition lower :: "string \<Rightarrow> string" where
  "lower s = map lower_char s"

text \<open>
  The line boundaries of \<^verbatim>\<open>str.splitlines\<close>: LF, VT, FF, CR, FS, GS, RS and NEL;
  CR LF counts as one boundary.
\<close>

definition is_linebreak :: "char \<Rightarrow> bool" where
  "is_linebreak c = ((of_char c :: nat) \<in> {10, 11, 12, 13, 28, 29, 30, 133})"

text \<open>
  \<^verbatim>\<open>s.splitlines()\<close>, reading \<open>s\<close> from the left with the current line kept
  reversed in \<open>cur\<close>. A text that ends in a line boundary has no empty last line.
\<close>

fun splitlines_from :: "string \<Rightarrow> string \<Rightarrow> string list" where
  "splitlines_from cur [] = (if cur = [] then [] else [rev cur])"
| "splitlines_from cur (c # cs) =
     (if is_linebreak c then
        (case cs of
           [] \<Rightarrow> [rev cur]
         | d # ds \<Rightarrow>
             if c = CHR 0x0D \<and> d = CHR 0x0A
             then rev cur # splitlines_from [] ds
             else rev cur # splitlines_from [] (d # ds))
      else splitlines_from (c # cur) cs)"

definition splitlines :: "string \<Rightarrow> string list" where
  "splitlines s = splitlines_from [] s"

text \<open>\<^verbatim>\<open>s.split(sep)\<close> for a separator of one character: never an empty list.\<close>

function split_chr :: "char \<Rightarrow> string \<Rightarrow> string list" where
  "split_chr sep s =
     (case dropWhile (\<lambda>c. c \<noteq> sep) s of
        [] \<Rightarrow> [takeWhile (\<lambda>c. c \<noteq> sep) s]
      | _ # r \<Rightarrow> takeWhile (\<lambda>c. c \<noteq> sep) s # split_chr sep r)"
  by pat_completeness auto
termination
proof (relation "measure (\<lambda>(sep, s). length s)")
  show "wf (measure (\<lambda>(sep, s). length s))"
    by simp
next
  fix sep :: char and s :: string and x r
  assume "dropWhile (\<lambda>c. c \<noteq> sep) s = x # r"
  then have "length r < length (dropWhile (\<lambda>c. c \<noteq> sep) s)"
    by simp
  also have "\<dots> \<le> length s"
    by (rule length_dropWhile_le)
  finally show "((sep, r), (sep, s)) \<in> measure (\<lambda>(sep, s). length s)"
    by simp
qed

declare split_chr.simps [simp del]

text \<open>The white space of \<^verbatim>\<open>str.strip()\<close>.\<close>

definition is_space :: "char \<Rightarrow> bool" where
  "is_space c =
     (let n = (of_char c :: nat)
      in (9 \<le> n \<and> n \<le> 13) \<or> (28 \<le> n \<and> n \<le> 32) \<or> n = 133 \<or> n = 160)"

definition strip :: "string \<Rightarrow> string" where
  "strip s = rev (dropWhile is_space (rev (dropWhile is_space s)))"

text \<open>\<^verbatim>\<open>xs[i]\<close> for \<open>i \<ge> 0\<close>: out of range raises \<^verbatim>\<open>IndexError\<close>.\<close>

definition list_index :: "'a list \<Rightarrow> nat \<Rightarrow> exc + 'a" where
  "list_index xs i =
     (if i < length xs then Inr (xs ! i)
      else Inl (Exc IndexError ''list index out of range''))"

text \<open>
  \<^verbatim>\<open>os.path.join(a, b)\<close> of \<^verbatim>\<open>posixpath\<close>, for a \<open>b\<close> that does not start with a
  slash (the script joins three fixed file names only).
\<close>

definition path_join :: "path \<Rightarrow> string \<Rightarrow> path" where
  "path_join a b = (if a = [] \<or> last a = CHR ''/'' then a @ b else a @ ''/'' @ b)"

section \<open>The world the script runs in\<close>

text \<open>
  What the script cannot decide itself is a field of the environment: whether a path
  can be opened, what the HTTP request returns, and whether a call into pip, setuptools
  or distutils raises. A file system maps a path to the text of the file at that path;
  two different paths are two different files.
\<close>

record env =
  writable :: "path \<Rightarrow> bool"
  readable :: "path \<Rightarrow> bool"
  http_get :: "string \<Rightarrow> exc + (nat \<times> string)"
  import_pip :: "exc option"
  pip_main :: "string list \<Rightarrow> exc option"
  find_packages :: "path \<Rightarrow> string list"
  distutils_setup :: "string \<Rightarrow> string list \<Rightarrow> exc option"

datatype event =
    Open path
  | Write path string
  | Copy path path
  | HttpGet string
  | PipMain "string list"
  | OsSystem string
  | FindPackages path
  | Setup string "string list"
  | Print string

record state =
  files :: "path \<rightharpoonup> string"
  log :: "event list"

type_synonym outcome = "exc option \<times> state"

definition emit :: "event \<Rightarrow> state \<Rightarrow> state" where
  "emit e s = s\<lparr>log := log s @ [e]\<rparr>"

text \<open>Statements in sequence: an exception skips whatever follows.\<close>

definition and_then :: "outcome \<Rightarrow> (state \<Rightarrow> outcome) \<Rightarrow> outcome" where
  "and_then r f = (case r of (None, s) \<Rightarrow> f s | (Some e, s) \<Rightarrow> (Some e, s))"

text \<open>\<^verbatim>\<open>open(p, "w")\<close> creates the file or empties it.\<close>

definition open_w :: "env \<Rightarrow> path \<Rightarrow> state \<Rightarrow> outcome" where
  "open_w E p s =
     (if writable E p
      then (None, emit (Open p) (s\<lparr>files := (files s)(p \<mapsto> [])\<rparr>))
      else (Some (Exc OSError p), s))"

text \<open>\<^verbatim>\<open>f.write(txt)\<close> on the file opened at \<open>p\<close>.\<close>

definition file_write :: "path \<Rightarrow> string \<Rightarrow> state \<Rightarrow> state" where
  "file_write p txt s =
     emit (Write p txt)
       (s\<lparr>files := (files s)(p \<mapsto> (case files s p of None \<Rightarrow> txt | Some c \<Rightarrow> c @ txt))\<rparr>)"

text \<open>
  \<^verbatim>\<open>shutil.copyfile(src, dst)\<close>: the same file raises, then the source is opened
  for reading, then the destination for writing.
\<close>

definition copyfile :: "env \<Rightarrow> path \<Rightarrow> path \<Rightarrow> state \<Rightarrow> outcome" where
  "copyfile E src dst s =
     (if src = dst then (Some (Exc SameFileError src), s)
      else case files s src of
        None \<Rightarrow> (Some (Exc FileNotFoundError src), s)
      | Some c \<Rightarrow>
          if \<not> readable E src then (Some (Exc PermissionError src), s)
          else if \<not> writable E dst then (Some (Exc OSError dst), s)
          else (None, emit (Copy src dst) (s\<lparr>files := (files s)(dst \<mapsto> c)\<rparr>)))"

section \<open>\<^verbatim>\<open>create_package\<close>\<close>

definition LICENSE_TEMPLATES :: "string \<rightharpoonup> string" where
  "LICENSE_TEMPLATES = map_of
     [(''mit'', ''https://raw.githubusercontent.com/OpenSourceInitiative/licenses/master/MIT''),
      (''apache-2.0'', ''https://raw.githubusercontent.com/apache/licenses/master/LICENSE-2.0''),
      (''gpl-3.0'', ''https://raw.githubusercontent.com/tldr-pages/tldr/master/licenses/gpl-3.0.md'')]"

definition manifest_path :: "path \<Rightarrow> path" where
  "manifest_path d = path_join d ''pyproject.toml''"

definition license_path :: "path \<Rightarrow> path" where
  "license_path d = path_join d ''LICENSE''"

definition readme_file :: "path \<Rightarrow> path" where
  "readme_file d = path_join d ''README.md''"

text \<open>Truth value of an argument that is \<^verbatim>\<open>None\<close> or a \<^verbatim>\<open>str\<close>.\<close>

fun truthy :: "string option \<Rightarrow> bool" where
  "truthy None = False"
| "truthy (Some s) = (s \<noteq> [])"

text \<open>Lines 26 to 28.\<close>

definition write_manifest :: "env \<Rightarrow> path \<Rightarrow> string \<Rightarrow> state \<Rightarrow> outcome" where
  "write_manifest E project_dir toml_content s =
     and_then (open_w E (manifest_path project_dir) s)
       (\<lambda>s1. (None, file_write (manifest_path project_dir) toml_content s1))"

text \<open>Lines 30 to 39.\<close>

definition create_license :: "env \<Rightarrow> path \<Rightarrow> string option \<Rightarrow> state \<Rightarrow> outcome" where
  "create_license E project_dir license_type s =
     (case license_type of
        None \<Rightarrow> (None, s)
      | Some lt \<Rightarrow>
          (if lt = [] then (None, s)
           else
             (case LICENSE_TEMPLATES (lower lt) of
                None \<Rightarrow> (Some (Exc ValueError (''Invalid license type: '' @ lt)), s)
              | Some license_url \<Rightarrow>
                  (if license_url = []
                   then (Some (Exc ValueError (''Invalid license type: '' @ lt)), s)
                   else
                     (case http_get E license_url of
                        Inl e \<Rightarrow> (Some e, emit (HttpGet license_url) s)
                      | Inr (status_code, txt) \<Rightarrow>
                          (if status_code \<noteq> 200
                           then (Some (Exc ValueError
                                   (''Failed to fetch license template from '' @ license_url)),
                                 emit (HttpGet license_url) s)
                           else and_then
                                  (open_w E (license_path project_dir)
                                     (emit (HttpGet license_url) s))
                                  (\<lambda>s1. (None,
                                     file_write (license_path project_dir) txt s1))))))))"

text \<open>
  Lines 41 to 47. The file is opened before the text to write is computed, so a
  failing index leaves an empty \<^verbatim>\<open>README.md\<close>.
\<close>

definition create_readme ::
  "env \<Rightarrow> path \<Rightarrow> string \<Rightarrow> string option \<Rightarrow> state \<Rightarrow> outcome" where
  "create_readme E project_dir toml_content readme_path s =
     (if truthy readme_path
      then copyfile E (the readme_path) (readme_file project_dir) s
      else and_then (open_w E (readme_file project_dir) s)
             (\<lambda>s1. case list_index (splitlines toml_content) 0 of
                      Inl e \<Rightarrow> (Some e, s1)
                    | Inr line \<Rightarrow>
                        (case list_index (split_chr CHR ''='' line) 1 of
                           Inl e \<Rightarrow> (Some e, s1)
                         | Inr v \<Rightarrow>
                             (None, file_write (readme_file project_dir)
                                      (''# '' @ strip v) s1))))"

text \<open>Lines 49 to 54: only \<^verbatim>\<open>ImportError\<close> is handled.\<close>

definition pip_warning :: string where
  "pip_warning = ''Warning: pip or setuptools is not installed. Package creation might fail.''"

definition pip_args :: "string list" where
  "pip_args = [''install'', ''-U'', ''pip'', ''setuptools'']"

definition except_ImportError :: "exc \<Rightarrow> state \<Rightarrow> outcome" where
  "except_ImportError e s =
     (if isinstance_ImportError e then (None, emit (Print pip_warning) s) else (Some e, s))"

definition upgrade_pip :: "env \<Rightarrow> state \<Rightarrow> outcome" where
  "upgrade_pip E s =
     (case import_pip E of
        Some e \<Rightarrow> except_ImportError e s
      | None \<Rightarrow>
          (case pip_main E pip_args of
             Some e \<Rightarrow> except_ImportError e (emit (PipMain pip_args) s)
           | None \<Rightarrow> (None, emit (PipMain pip_args) s)))"

text \<open>
  Lines 56 to 65: \<^verbatim>\<open>os.system\<close> returns a status that is not read; the keyword
  arguments of \<^verbatim>\<open>setup\<close> are evaluated from the left, \<^verbatim>\<open>name\<close> first.
\<close>

definition except_Exception :: "exc \<Rightarrow> state \<Rightarrow> outcome" where
  "except_Exception e s =
     (if isinstance_Exception e
      then (None, emit (Print (''Error generating distribution files: '' @ exc_str e)) s)
      else (Some e, s))"

definition generate_dist :: "env \<Rightarrow> path \<Rightarrow> state \<Rightarrow> outcome" where
  "generate_dist E project_dir s =
     (let s1 = emit (OsSystem ''py -m pip install --upgrade build'') s;
          s2 = emit (FindPackages project_dir) s1
      in case list_index (find_packages E project_dir) 0 of
           Inl e \<Rightarrow> except_Exception e s2
         | Inr name \<Rightarrow>
             (let packages = find_packages E project_dir;
                  s3 = emit (Setup name packages) (emit (FindPackages project_dir) s2)
              in case distutils_setup E name packages of
                   Some e \<Rightarrow> except_Exception e s3
                 | None \<Rightarrow> (None, s3)))"

text \<open>Line 67.\<close>

definition report_success :: "path \<Rightarrow> state \<Rightarrow> outcome" where
  "report_success project_dir s =
     (None, emit (Print (''Package created successfully in: '' @ project_dir)) s)"

text \<open>The three blocks that write files, on a file system \<open>fs\<close> and an empty log.\<close>

definition materialize_files ::
  "env \<Rightarrow> (path \<rightharpoonup> string) \<Rightarrow> path \<Rightarrow> string \<Rightarrow> string option \<Rightarrow> string option \<Rightarrow> outcome" where
  "materialize_files E fs project_dir toml_content license_type readme_path =
     and_then
       (and_then
          (write_manifest E project_dir toml_content \<lparr>files = fs, log = []\<rparr>)
          (create_license E project_dir license_type))
       (create_readme E project_dir toml_content readme_path)"

definition create_package ::
  "env \<Rightarrow> (path \<rightharpoonup> string) \<Rightarrow> path \<Rightarrow> string \<Rightarrow> string option \<Rightarrow> string option \<Rightarrow> outcome" where
  "create_package E fs project_dir toml_content license_type readme_path =
     and_then
       (and_then
          (and_then
             (materialize_files E fs project_dir toml_content license_type readme_path)
             (upgrade_pip E))
          (generate_dist E project_dir))
       (report_success project_dir)"

section \<open>\<^verbatim>\<open>main\<close>\<close>

text \<open>The namespace \<^verbatim>\<open>parse_args\<close> returns.\<close>

record args =
  project_dir :: string
  toml :: string
  license :: "string option"
  readme :: "string option"

datatype pyval = PyStr string | PyNone

fun opt_of :: "pyval \<Rightarrow> string option" where
  "opt_of (PyStr s) = Some s"
| "opt_of PyNone = None"

text \<open>
  A call of \<^verbatim>\<open>create_package\<close> with positional arguments only. The function has
  four parameters and no default: fewer arguments raise the \<^verbatim>\<open>TypeError\<close> that names the
  missing parameters, more raise the one that counts them, both before the body runs.
\<close>

definition quoted :: "string \<Rightarrow> string" where
  "quoted s = CHR 0x27 # s @ [CHR 0x27]"

definition parameters :: "string list" where
  "parameters = [''project_dir'', ''toml_content'', ''license_type'', ''readme_path'']"

fun show_nat :: "nat \<Rightarrow> string" where
  "show_nat n =
     (if n < 10 then [char_of (48 + n)]
      else show_nat (n div 10) @ [char_of (48 + n mod 10)])"

declare show_nat.simps [simp del]

text \<open>The names of the missing parameters, as the interpreter lists them.\<close>

fun names_phrase :: "string list \<Rightarrow> string" where
  "names_phrase [] = []"
| "names_phrase [a] = quoted a"
| "names_phrase [a, b] = quoted a @ '' and '' @ quoted b"
| "names_phrase (a # b # c # ns) =
     concat (map (\<lambda>n. quoted n @ '', '') (butlast (a # b # c # ns))) @
     ''and '' @ quoted (last (a # b # c # ns))"

definition arity_error :: "nat \<Rightarrow> exc" where
  "arity_error n =
     (if n < 4
      then Exc TypeError
             (''create_package() missing '' @ show_nat (4 - n) @
              '' required positional argument'' @ (if 4 - n = 1 then [] else ''s'') @
              '': '' @ names_phrase (drop n parameters))
      else Exc TypeError
             (''create_package() takes 4 positional arguments but '' @ show_nat n @
              '' were given''))"

text \<open>The error of the call with two arguments, written out.\<close>

definition missing_arguments :: exc where
  "missing_arguments = Exc TypeError
     (''create_package() missing 2 required positional arguments: '' @
      quoted ''license_type'' @ '' and '' @ quoted ''readme_path'')"

text \<open>
  With four arguments the body runs. An argument that is \<^verbatim>\<open>None\<close> where the body
  needs a text fails where it is first used: the project directory in
  \<^verbatim>\<open>os.path.join\<close>, the manifest text in \<^verbatim>\<open>f.write\<close>, after the file was opened.
\<close>

fun call_create_package :: "env \<Rightarrow> (path \<rightharpoonup> string) \<Rightarrow> pyval list \<Rightarrow> outcome" where
  "call_create_package E fs [PyStr d, PyStr t, l, r] =
     create_package E fs d t (opt_of l) (opt_of r)"
| "call_create_package E fs [PyStr d, PyNone, l, r] =
     and_then (open_w E (manifest_path d) \<lparr>files = fs, log = []\<rparr>)
       (\<lambda>s. (Some (Exc TypeError ''write() argument must be str, not NoneType''), s))"
| "call_create_package E fs [PyNone, t, l, r] =
     (Some (Exc TypeError ''expected str, bytes or os.PathLike object, not NoneType''),
      \<lparr>files = fs, log = []\<rparr>)"
| "call_create_package E fs pos =
     (Some (arity_error (length pos)), \<lparr>files = fs, log = []\<rparr>)"

text \<open>Lines 86 to 92: the manifest text, from the file at \<^verbatim>\<open>--toml\<close> or the option itself.\<close>

definition resolve_toml :: "env \<Rightarrow> (path \<rightharpoonup> string) \<Rightarrow> args \<Rightarrow> exc + string" where
  "resolve_toml E fs a =
     (case fs (toml a) of
        None \<Rightarrow> Inr (toml a)
      | Some c \<Rightarrow> if readable E (toml a) then Inr c else Inl (Exc PermissionError (toml a)))"

text \<open>The positional arguments of the call on line 94.\<close>

definition main_call_args :: "args \<Rightarrow> string \<Rightarrow> pyval list" where
  "main_call_args a toml_content = [PyStr (project_dir a), PyStr toml_content]"

definition main :: "env \<Rightarrow> (path \<rightharpoonup> string) \<Rightarrow> args \<Rightarrow> outcome" where
  "main E fs a =
     (case resolve_toml E fs a of
        Inl e \<Rightarrow> (Some e, \<lparr>files = fs, log = []\<rparr>)
      | Inr toml_content \<Rightarrow> call_create_package E fs (main_call_args a toml_content))"

section \<open>Observations on a run\<close>

text \<open>The events of the log, by kind.\<close>

fun is_http_event :: "event \<Rightarrow> bool" where
  "is_http_event (HttpGet u) = True"
| "is_http_event e = False"

fun is_file_event :: "event \<Rightarrow> bool" where
  "is_file_event (Open p) = True"
| "is_file_event (Write p c) = True"
| "is_file_event (Copy src dst) = True"
| "is_file_event e = False"

fun is_toolchain_event :: "event \<Rightarrow> bool" where
  "is_toolchain_event (PipMain a) = True"
| "is_toolchain_event (OsSystem c) = True"
| "is_toolchain_event (FindPackages p) = True"
| "is_toolchain_event (Setup n ps) = True"
| "is_toolchain_event e = False"

text \<open>The events that create or change the file at \<open>p\<close>.\<close>

fun touches :: "path \<Rightarrow> event \<Rightarrow> bool" where
  "touches p (Open q) = (q = p)"
| "touches p (Write q c) = (q = p)"
| "touches p (Copy src q) = (q = p)"
| "touches p e = False"

fun creates :: "path \<Rightarrow> event \<Rightarrow> bool" where
  "creates p (Open q) = (q = p)"
| "creates p (Copy src q) = (q = p)"
| "creates p e = False"

text \<open>
  What one run may do to one file: nothing, open it (and write it once), or copy
  another file onto it. Nothing follows.
\<close>

fun single_creation :: "path \<Rightarrow> event list \<Rightarrow> bool" where
  "single_creation p [] = True"
| "single_creation p [Open q] = (q = p)"
| "single_creation p [Open q, Write q' c] = (q = p \<and> q' = p)"
| "single_creation p [Copy src q] = (q = p)"
| "single_creation p es = False"

fun is_print_event :: "event \<Rightarrow> bool" where
  "is_print_event (Print m) = True"
| "is_print_event e = False"

text \<open>The log of \<open>s'\<close> is the log of \<open>s\<close> followed by events of kind \<open>P\<close> only.\<close>

definition log_extends :: "(event \<Rightarrow> bool) \<Rightarrow> state \<Rightarrow> state \<Rightarrow> bool" where
  "log_extends P s s' = (\<exists>X. log s' = log s @ X \<and> list_all P X)"

section \<open>The README text as the specification words it\<close>



section \<open>An example environment\<close>

text \<open>
  Every path can be opened, the license server answers 200, pip is installed and no
  package is found under the project directory.
\<close>

definition demo_env :: env where
  "demo_env =
     \<lparr>writable = (\<lambda>p. True),
      readable = (\<lambda>p. True),
      http_get = (\<lambda>u. Inr (200, ''LICENSE TEXT'')),
      import_pip = None,
      pip_main = (\<lambda>a. None),
      find_packages = (\<lambda>p. []),
      distutils_setup = (\<lambda>n ps. None)\<rparr>"

section \<open>Basic facts\<close>

lemma and_then_None [simp]: "and_then (None, s) f = f s"
  by (simp add: and_then_def)

lemma and_then_Some [simp]: "and_then (Some e, s) f = (Some e, s)"
  by (simp add: and_then_def)

lemma manifest_neq_license [simp]:
  "manifest_path d \<noteq> license_path d" "license_path d \<noteq> manifest_path d"
  by (simp_all add: manifest_path_def license_path_def path_join_def)

lemma manifest_neq_readme [simp]:
  "manifest_path d \<noteq> readme_file d" "readme_file d \<noteq> manifest_path d"
  by (simp_all add: manifest_path_def readme_file_def path_join_def)

lemma license_neq_readme [simp]:
  "license_path d \<noteq> readme_file d" "readme_file d \<noteq> license_path d"
  by (simp_all add: license_path_def readme_file_def path_join_def)


lemma files_emit [simp]: "files (emit e s) = files s"
  by (simp add: emit_def)

lemma log_emit [simp]: "log (emit e s) = log s @ [e]"
  by (simp add: emit_def)


lemma create_license_files_other:
  "p \<noteq> license_path d \<Longrightarrow> files (snd (create_license E d l s)) p = files s p"
  by (simp add: create_license_def open_w_def file_write_def
           split: option.splits sum.splits prod.splits)

lemma create_readme_files_other:
  "p \<noteq> readme_file d \<Longrightarrow> files (snd (create_readme E d t r s)) p = files s p"
  by (simp add: create_readme_def copyfile_def open_w_def file_write_def
           split: option.splits sum.splits)

lemma except_ImportError_files [simp]: "files (snd (except_ImportError e s)) = files s"
  by (simp add: except_ImportError_def)

lemma except_Exception_files [simp]: "files (snd (except_Exception e s)) = files s"
  by (simp add: except_Exception_def)

lemma upgrade_pip_files [simp]: "files (snd (upgrade_pip E s)) = files s"
  by (simp add: upgrade_pip_def split: option.splits)

lemma generate_dist_files [simp]: "files (snd (generate_dist E d s)) = files s"
  by (simp add: generate_dist_def Let_def split: option.splits sum.splits)

lemma report_success_files [simp]: "files (snd (report_success d s)) = files s"
  by (simp add: report_success_def)

lemma and_then_files_same:
  assumes "\<And>s. files (snd (f s)) = files s"
  shows "files (snd (and_then r f)) = files (snd r)"
proof (cases r)
  case (Pair x s)
  with assms show ?thesis
    by (cases x) simp_all
qed

lemma create_package_files:
  "files (snd (create_package E fs d t l r)) = files (snd (materialize_files E fs d t l r))"
  by (simp add: create_package_def and_then_files_same)

section \<open>The manifest file\<close>



section \<open>A block that raises ends the run\<close>

lemma and_then_raised: "fst r = Some e \<Longrightarrow> and_then r f = r"
  by (cases r) simp

lemma LICENSE_TEMPLATES_nonempty:
  "LICENSE_TEMPLATES k = Some url \<Longrightarrow> k \<noteq> [] \<and> url \<noteq> []"
  by (auto simp: LICENSE_TEMPLATES_def split: if_splits)

lemma lower_Nil_iff [simp]: "lower lt = [] \<longleftrightarrow> lt = []"
  by (simp add: lower_def)

lemma write_manifest_ok:
  "writable E (manifest_path d) \<Longrightarrow>
   write_manifest E d t \<lparr>files = fs, log = []\<rparr> =
     (None, \<lparr>files = fs(manifest_path d \<mapsto> t),
             log = [Open (manifest_path d), Write (manifest_path d) t]\<rparr>)"
  by (simp add: write_manifest_def open_w_def file_write_def emit_def)

lemma create_license_bad_status:
  assumes "LICENSE_TEMPLATES (lower lt) = Some url"
    and "http_get E url = Inr (code, txt)" and "code \<noteq> 200"
  shows "create_license E d (Some lt) s =
     (Some (Exc ValueError (''Failed to fetch license template from '' @ url)),
      emit (HttpGet url) s)"
proof -
  from assms(1) have "lt \<noteq> []" "url \<noteq> []"
    using LICENSE_TEMPLATES_nonempty [of "lower lt" url] by simp_all
  with assms show ?thesis
    by (simp add: create_license_def)
qed

section \<open>A license fetch that fails\<close>

text \<open>
  Claim C4. For a license key of the table, a response whose status is not 200 makes
  \<^verbatim>\<open>create_package\<close> raise the fetch-failed error right after the request: the run
  has written the manifest and nothing else, no event touches \<^verbatim>\<open>LICENSE\<close>, and the
  project directory holds the \<^verbatim>\<open>LICENSE\<close> it held before, if any.
\<close>

theorem fetch_failure_aborts:
  assumes "writable E (manifest_path d)"
    and "LICENSE_TEMPLATES (lower lt) = Some url"
    and "http_get E url = Inr (code, txt)"
    and "code \<noteq> 200"
  shows "fst (create_package E fs d t (Some lt) r) =
           Some (Exc ValueError (''Failed to fetch license template from '' @ url))
       \<and> log (snd (create_package E fs d t (Some lt) r)) =
           [Open (manifest_path d), Write (manifest_path d) t, HttpGet url]
       \<and> filter (touches (license_path d)) (log (snd (create_package E fs d t (Some lt) r))) = []
       \<and> files (snd (create_package E fs d t (Some lt) r)) (license_path d) = fs (license_path d)"
proof -
  let ?m = "manifest_path d"
  let ?e = "Exc ValueError (''Failed to fetch license template from '' @ url)"
  let ?s = "\<lparr>files = fs(?m \<mapsto> t), log = [Open ?m, Write ?m t, HttpGet url]\<rparr>"
  have "and_then (write_manifest E d t \<lparr>files = fs, log = []\<rparr>) (create_license E d (Some lt))
          = (Some ?e, ?s)"
    using assms by (simp add: write_manifest_ok create_license_bad_status emit_def)
  then have "create_package E fs d t (Some lt) r = (Some ?e, ?s)"
    by (simp add: create_package_def materialize_files_def)
  then show ?thesis
    by simp
qed

theorem fetch_failure_aborts_witness:
  "fst (create_package (demo_env\<lparr>http_get := \<lambda>u. Inr (404, ''Not Found'')\<rparr>)
          Map.empty ''proj'' ''name = demo'' (Some ''MIT'') None) =
     Some (Exc ValueError (''Failed to fetch license template from '' @
       ''https://raw.githubusercontent.com/OpenSourceInitiative/licenses/master/MIT''))
   \<and> files (snd (create_package (demo_env\<lparr>http_get := \<lambda>u. Inr (404, ''Not Found'')\<rparr>)
          Map.empty ''proj'' ''name = demo'' (Some ''MIT'') None)) (license_path ''proj'') = None"
proof -
  let ?E = "demo_env\<lparr>http_get := \<lambda>u. Inr (404, ''Not Found'')\<rparr>"
  let ?url = "''https://raw.githubusercontent.com/OpenSourceInitiative/licenses/master/MIT''"
  have w: "writable ?E (manifest_path ''proj'')"
    by (simp add: demo_env_def)
  have k: "LICENSE_TEMPLATES (lower ''MIT'') = Some ?url"
    by code_simp
  have h: "http_get ?E ?url = Inr (404, ''Not Found'')"
    by simp
  have c: "(404::nat) \<noteq> 200"
    by simp
  from fetch_failure_aborts [OF w k h c, of Map.empty "''name = demo''" None]
  show ?thesis
    by simp
qed

section \<open>How each block extends the log\<close>

lemma log_extends_refl [simp]: "log_extends P s s"
  by (simp add: log_extends_def)

lemma log_extends_trans:
  "log_extends P s s' \<Longrightarrow> log_extends P s' s'' \<Longrightarrow> log_extends P s s''"
  by (auto simp: log_extends_def)

lemma log_extends_mono:
  "log_extends P s s' \<Longrightarrow> (\<And>e. P e \<Longrightarrow> Q e) \<Longrightarrow> log_extends Q s s'"
  by (auto simp: log_extends_def list_all_iff)

lemma and_then_log_extends:
  assumes "log_extends P s0 (snd r)" and "\<And>s. log_extends P s (snd (f s))"
  shows "log_extends P s0 (snd (and_then r f))"
proof (cases r)
  case (Pair x s)
  show ?thesis
  proof (cases x)
    case None
    with Pair assms(1) assms(2) [of s] show ?thesis
      by (auto intro: log_extends_trans)
  next
    case (Some e)
    with Pair assms(1) show ?thesis
      by simp
  qed
qed

lemma log_extends_filter:
  assumes "log_extends P s s'" and "\<And>e. P e \<Longrightarrow> \<not> Q e"
  shows "filter Q (log s') = filter Q (log s)"
proof -
  from assms(1) obtain X where X: "log s' = log s @ X" "list_all P X"
    by (auto simp: log_extends_def)
  from X(2) assms(2) have "filter Q X = []"
    by (auto simp: list_all_iff filter_empty_conv)
  with X(1) show ?thesis
    by simp
qed

lemma write_manifest_log: "log_extends is_file_event s (snd (write_manifest E d t s))"
  by (simp add: write_manifest_def open_w_def file_write_def log_extends_def emit_def)

lemma create_license_log:
  "log_extends (\<lambda>e. is_file_event e \<or> is_http_event e) s (snd (create_license E d l s))"
  by (simp add: create_license_def open_w_def file_write_def log_extends_def emit_def
           split: option.splits sum.splits prod.splits)

lemma create_readme_log: "log_extends is_file_event s (snd (create_readme E d t r s))"
  by (simp add: create_readme_def copyfile_def open_w_def file_write_def log_extends_def
                emit_def
           split: option.splits sum.splits)

lemma except_ImportError_log:
  "log_extends (\<lambda>e. is_toolchain_event e \<or> is_print_event e) s (snd (except_ImportError e s))"
  by (simp add: except_ImportError_def log_extends_def emit_def)

lemma except_Exception_log:
  "log_extends (\<lambda>e. is_toolchain_event e \<or> is_print_event e) s (snd (except_Exception e s))"
  by (simp add: except_Exception_def log_extends_def emit_def)

lemma upgrade_pip_log:
  "log_extends (\<lambda>e. is_toolchain_event e \<or> is_print_event e) s (snd (upgrade_pip E s))"
  by (simp add: upgrade_pip_def except_ImportError_def log_extends_def emit_def
           split: option.splits)

lemma generate_dist_log:
  "log_extends (\<lambda>e. is_toolchain_event e \<or> is_print_event e) s (snd (generate_dist E d s))"
  by (simp add: generate_dist_def except_Exception_def log_extends_def emit_def Let_def
           split: option.splits sum.splits)

lemma report_success_log:
  "log_extends (\<lambda>e. is_toolchain_event e \<or> is_print_event e) s (snd (report_success d s))"
  by (simp add: report_success_def log_extends_def emit_def)

lemma materialize_files_log:
  "log_extends (\<lambda>e. is_file_event e \<or> is_http_event e) \<lparr>files = fs, log = []\<rparr>
     (snd (materialize_files E fs d t l r))"
  unfolding materialize_files_def
  by (intro and_then_log_extends create_license_log
        log_extends_mono [OF write_manifest_log] log_extends_mono [OF create_readme_log])
     simp_all

lemma create_package_log:
  "log_extends (\<lambda>e. is_toolchain_event e \<or> is_print_event e)
     (snd (materialize_files E fs d t l r)) (snd (create_package E fs d t l r))"
  unfolding create_package_def
  by (intro and_then_log_extends log_extends_refl upgrade_pip_log generate_dist_log
        report_success_log)

lemma is_file_not_http: "is_file_event e \<Longrightarrow> \<not> is_http_event e"
  by (cases e) simp_all

lemma is_tool_not_http: "is_toolchain_event e \<or> is_print_event e \<Longrightarrow> \<not> is_http_event e"
  by (cases e) simp_all

lemma is_tool_not_file: "is_toolchain_event e \<or> is_print_event e \<Longrightarrow> \<not> is_file_event e"
  by (cases e) simp_all

lemma is_tool_not_touches: "is_toolchain_event e \<or> is_print_event e \<Longrightarrow> \<not> touches p e"
  by (cases e) simp_all

lemma is_file_not_tool: "is_file_event e \<or> is_http_event e \<Longrightarrow> \<not> is_toolchain_event e"
  by (cases e) simp_all

section \<open>The license table and the request\<close>

lemma LICENSE_TEMPLATES_None:
  "k \<notin> {''mit'', ''apache-2.0'', ''gpl-3.0''} \<Longrightarrow> LICENSE_TEMPLATES k = None"
  by (simp add: LICENSE_TEMPLATES_def)

lemma create_license_http:
  assumes "LICENSE_TEMPLATES (lower lt) = Some url"
  shows "filter is_http_event (log (snd (create_license E d (Some lt) s))) =
         filter is_http_event (log s) @ [HttpGet url]"
proof -
  from assms have "lt \<noteq> []" "url \<noteq> []"
    using LICENSE_TEMPLATES_nonempty [of "lower lt" url] by simp_all
  with assms show ?thesis
    by (simp add: create_license_def open_w_def file_write_def emit_def
             split: sum.splits prod.splits)
qed

lemma create_license_invalid:
  assumes "lt \<noteq> []" and "LICENSE_TEMPLATES (lower lt) = None"
  shows "create_license E d (Some lt) s =
         (Some (Exc ValueError (''Invalid license type: '' @ lt)), s)"
  using assms by (simp add: create_license_def)

lemma http_events_of_run:
  "filter is_http_event (log (snd (create_package E fs d t l r))) =
   filter is_http_event
     (log (snd (and_then (write_manifest E d t \<lparr>files = fs, log = []\<rparr>) (create_license E d l))))"
proof -
  have "filter is_http_event (log (snd (create_package E fs d t l r))) =
        filter is_http_event (log (snd (materialize_files E fs d t l r)))"
    by (rule log_extends_filter [OF create_package_log is_tool_not_http])
  also have "\<dots> = filter is_http_event
     (log (snd (and_then (write_manifest E d t \<lparr>files = fs, log = []\<rparr>) (create_license E d l))))"
    unfolding materialize_files_def
    by (rule log_extends_filter
          [OF and_then_log_extends [OF log_extends_refl create_readme_log] is_file_not_http])
  finally show ?thesis .
qed

text \<open>
  Claim C1. In a project directory where the manifest can be written, a non-empty license
  key whose lower-case form is a key of the table leads to one HTTP GET in the whole run,
  to the URL the table maps that key to; a non-empty key whose lower-case form is none of
  \<^verbatim>\<open>mit\<close>, \<^verbatim>\<open>apache-2.0\<close>, \<^verbatim>\<open>gpl-3.0\<close> makes \<^verbatim>\<open>create_package\<close> raise the
  invalid-license error with no request in the log. The table has these three keys and
  the three URLs of the source.
\<close>

theorem license_url_lookup:
  assumes "writable E (manifest_path d)" and "lt \<noteq> []"
  shows "(\<forall>url. LICENSE_TEMPLATES (lower lt) = Some url \<longrightarrow>
            filter is_http_event (log (snd (create_package E fs d t (Some lt) r))) = [HttpGet url])
       \<and> (lower lt \<notin> {''mit'', ''apache-2.0'', ''gpl-3.0''} \<longrightarrow>
            fst (create_package E fs d t (Some lt) r) =
              Some (Exc ValueError (''Invalid license type: '' @ lt))
          \<and> filter is_http_event (log (snd (create_package E fs d t (Some lt) r))) = [])
       \<and> LICENSE_TEMPLATES ''mit'' =
            Some ''https://raw.githubusercontent.com/OpenSourceInitiative/licenses/master/MIT''
       \<and> LICENSE_TEMPLATES ''apache-2.0'' =
            Some ''https://raw.githubusercontent.com/apache/licenses/master/LICENSE-2.0''
       \<and> LICENSE_TEMPLATES ''gpl-3.0'' =
            Some ''https://raw.githubusercontent.com/tldr-pages/tldr/master/licenses/gpl-3.0.md''
       \<and> dom LICENSE_TEMPLATES = {''mit'', ''apache-2.0'', ''gpl-3.0''}"
proof -
  let ?s1 = "\<lparr>files = fs(manifest_path d \<mapsto> t),
              log = [Open (manifest_path d), Write (manifest_path d) t]\<rparr>"
  let ?run = "create_package E fs d t (Some lt) r"
  have m: "write_manifest E d t \<lparr>files = fs, log = []\<rparr> = (None, ?s1)"
    using assms(1) by (rule write_manifest_ok)
  have valid: "filter is_http_event (log (snd ?run)) = [HttpGet url]"
    if "LICENSE_TEMPLATES (lower lt) = Some url" for url
    using that by (simp add: http_events_of_run m create_license_http)
  have invalid: "fst ?run = Some (Exc ValueError (''Invalid license type: '' @ lt))
      \<and> filter is_http_event (log (snd ?run)) = []"
    if "lower lt \<notin> {''mit'', ''apache-2.0'', ''gpl-3.0''}"
  proof -
    from that have "LICENSE_TEMPLATES (lower lt) = None"
      by (rule LICENSE_TEMPLATES_None)
    with assms(2) have "create_license E d (Some lt) ?s1 =
        (Some (Exc ValueError (''Invalid license type: '' @ lt)), ?s1)"
      by (rule create_license_invalid)
    with m show ?thesis
      by (simp add: create_package_def materialize_files_def)
  qed
  have table: "LICENSE_TEMPLATES ''mit'' =
            Some ''https://raw.githubusercontent.com/OpenSourceInitiative/licenses/master/MIT''"
    "LICENSE_TEMPLATES ''apache-2.0'' =
            Some ''https://raw.githubusercontent.com/apache/licenses/master/LICENSE-2.0''"
    "LICENSE_TEMPLATES ''gpl-3.0'' =
            Some ''https://raw.githubusercontent.com/tldr-pages/tldr/master/licenses/gpl-3.0.md''"
    by (simp_all add: LICENSE_TEMPLATES_def)
  have d: "dom LICENSE_TEMPLATES = {''mit'', ''apache-2.0'', ''gpl-3.0''}"
    by (auto simp: LICENSE_TEMPLATES_def split: if_splits)
  from valid invalid table d show ?thesis
    by blast
qed

theorem license_url_lookup_witness:
  "filter is_http_event
     (log (snd (create_package demo_env Map.empty ''proj'' ''name = demo'' (Some ''Apache-2.0'') None))) =
     [HttpGet ''https://raw.githubusercontent.com/apache/licenses/master/LICENSE-2.0'']
   \<and> fst (create_package demo_env Map.empty ''proj'' ''name = demo'' (Some ''bsd'') None) =
       Some (Exc ValueError ''Invalid license type: bsd'')
   \<and> filter is_http_event
       (log (snd (create_package demo_env Map.empty ''proj'' ''name = demo'' (Some ''bsd'') None))) = []"
proof -
  have w: "writable demo_env (manifest_path ''proj'')"
    by (simp add: demo_env_def)
  have k: "LICENSE_TEMPLATES (lower ''Apache-2.0'') =
      Some ''https://raw.githubusercontent.com/apache/licenses/master/LICENSE-2.0''"
    by code_simp
  have b: "lower ''bsd'' \<notin> {''mit'', ''apache-2.0'', ''gpl-3.0''}"
    by code_simp
  from license_url_lookup [OF w, of "''Apache-2.0''" Map.empty "''name = demo''" None] k
  have 1: "filter is_http_event
     (log (snd (create_package demo_env Map.empty ''proj'' ''name = demo'' (Some ''Apache-2.0'') None))) =
     [HttpGet ''https://raw.githubusercontent.com/apache/licenses/master/LICENSE-2.0'']"
    by simp
  from license_url_lookup [OF w, of "''bsd''" Map.empty "''name = demo''" None] b
  have 2: "fst (create_package demo_env Map.empty ''proj'' ''name = demo'' (Some ''bsd'') None) =
       Some (Exc ValueError ''Invalid license type: bsd'')
   \<and> filter is_http_event
       (log (snd (create_package demo_env Map.empty ''proj'' ''name = demo'' (Some ''bsd'') None))) = []"
    by simp
  from 1 2 show ?thesis
    by simp
qed

section \<open>What a successful block has written\<close>

lemma and_then_NoneD:
  assumes "fst (and_then r f) = None"
  shows "fst r = None \<and> and_then r f = f (snd r)"
proof (cases r)
  case (Pair x s)
  with assms show ?thesis
    by (cases x) simp_all
qed

lemma write_manifest_success:
  "fst (write_manifest E d t s) = None \<Longrightarrow>
   files (snd (write_manifest E d t s)) (manifest_path d) = Some t"
  by (simp add: write_manifest_def open_w_def file_write_def split: if_splits)

lemma create_license_success:
  assumes "fst (create_license E d (Some lt) s) = None" and "lt \<noteq> []"
  shows "\<exists>url txt. LICENSE_TEMPLATES (lower lt) = Some url \<and> http_get E url = Inr (200, txt)
           \<and> files (snd (create_license E d (Some lt) s)) (license_path d) = Some txt"
  using assms
  by (auto simp: create_license_def open_w_def file_write_def
           split: option.splits sum.splits prod.splits if_splits)

lemma create_readme_success:
  "fst (create_readme E d t r s) = None \<Longrightarrow>
   files (snd (create_readme E d t r s)) (readme_file d) \<noteq> None"
  by (auto simp: create_readme_def copyfile_def open_w_def file_write_def
           split: option.splits sum.splits if_splits)

lemma materialize_files_success:
  assumes "fst (materialize_files E fs d t l r) = None"
  shows "files (snd (materialize_files E fs d t l r)) (manifest_path d) = Some t"
    and "\<And>lt. l = Some lt \<Longrightarrow> lt \<noteq> [] \<Longrightarrow>
           \<exists>url txt. LICENSE_TEMPLATES (lower lt) = Some url \<and> http_get E url = Inr (200, txt)
             \<and> files (snd (materialize_files E fs d t l r)) (license_path d) = Some txt"
    and "files (snd (materialize_files E fs d t l r)) (readme_file d) \<noteq> None"
proof -
  let ?s0 = "\<lparr>files = fs, log = []\<rparr>"
  let ?r1 = "write_manifest E d t ?s0"
  let ?r2 = "create_license E d l (snd ?r1)"
  let ?r3 = "create_readme E d t r (snd ?r2)"
  from assms have "fst (and_then (and_then ?r1 (create_license E d l)) (create_readme E d t r)) = None"
    by (simp add: materialize_files_def)
  from and_then_NoneD [OF this]
  have 3: "fst (and_then ?r1 (create_license E d l)) = None"
    and eq3: "materialize_files E fs d t l r =
      create_readme E d t r (snd (and_then ?r1 (create_license E d l)))"
    by (simp_all add: materialize_files_def)
  from and_then_NoneD [OF 3]
  have 1: "fst ?r1 = None" and 2: "and_then ?r1 (create_license E d l) = ?r2"
    by simp_all
  from eq3 2 have eq: "materialize_files E fs d t l r = ?r3"
    by simp
  from assms eq have ok3: "fst ?r3 = None"
    by simp
  from 3 2 have ok2: "fst ?r2 = None"
    by simp
  from 1 have "files (snd ?r1) (manifest_path d) = Some t"
    by (rule write_manifest_success)
  then show "files (snd (materialize_files E fs d t l r)) (manifest_path d) = Some t"
    by (simp add: eq create_license_files_other create_readme_files_other)
  show "\<exists>url txt. LICENSE_TEMPLATES (lower lt) = Some url \<and> http_get E url = Inr (200, txt)
             \<and> files (snd (materialize_files E fs d t l r)) (license_path d) = Some txt"
    if "l = Some lt" "lt \<noteq> []" for lt
  proof -
    have "files (snd (materialize_files E fs d t l r)) (license_path d) =
        files (snd ?r2) (license_path d)"
      by (simp add: eq create_readme_files_other)
    moreover from ok2 that have "fst (create_license E d (Some lt) (snd ?r1)) = None"
      by simp
    from create_license_success [OF this that(2)] that(1)
    have "\<exists>url txt. LICENSE_TEMPLATES (lower lt) = Some url \<and> http_get E url = Inr (200, txt)
           \<and> files (snd ?r2) (license_path d) = Some txt"
      by simp
    ultimately show ?thesis
      by simp
  qed
  from ok3 show "files (snd (materialize_files E fs d t l r)) (readme_file d) \<noteq> None"
    unfolding eq by (rule create_readme_success)
qed

lemma toolchain_needs_files:
  assumes "list_ex is_toolchain_event (log (snd (create_package E fs d t l r)))"
  shows "fst (materialize_files E fs d t l r) = None"
proof (rule ccontr)
  assume "fst (materialize_files E fs d t l r) \<noteq> None"
  then obtain e where "fst (materialize_files E fs d t l r) = Some e"
    by auto
  then have "create_package E fs d t l r = materialize_files E fs d t l r"
    by (simp add: create_package_def and_then_raised)
  moreover have "filter is_toolchain_event (log (snd (materialize_files E fs d t l r))) =
      filter is_toolchain_event (log \<lparr>files = fs, log = []\<rparr>)"
    by (rule log_extends_filter [OF materialize_files_log is_file_not_tool])
  ultimately have "filter is_toolchain_event (log (snd (create_package E fs d t l r))) = []"
    by simp
  with assms show False
    by (simp add: list_ex_iff filter_empty_conv)
qed

lemma no_file_event_after_toolchain:
  "filter is_file_event
     (dropWhile (\<lambda>e. \<not> is_toolchain_event e) (log (snd (create_package E fs d t l r)))) = []"
proof -
  let ?L3 = "log (snd (materialize_files E fs d t l r))"
  from materialize_files_log [of fs E d t l r]
  have a: "list_all (\<lambda>e. is_file_event e \<or> is_http_event e) ?L3"
    by (simp add: log_extends_def)
  from create_package_log [of E fs d t l r] obtain X
    where X: "log (snd (create_package E fs d t l r)) = ?L3 @ X"
      "list_all (\<lambda>e. is_toolchain_event e \<or> is_print_event e) X"
    by (auto simp: log_extends_def)
  have "\<not> is_toolchain_event e" if "e \<in> set ?L3" for e
    using a that is_file_not_tool [of e] by (simp add: list_all_iff)
  then have "dropWhile (\<lambda>e. \<not> is_toolchain_event e) (?L3 @ X) =
      dropWhile (\<lambda>e. \<not> is_toolchain_event e) X"
    by (intro dropWhile_append2) simp
  moreover have "\<not> is_file_event e"
    if "e \<in> set (dropWhile (\<lambda>e. \<not> is_toolchain_event e) X)" for e
  proof -
    from that have "e \<in> set X"
      by (rule set_dropWhileD)
    with X(2) is_tool_not_file [of e] show ?thesis
      by (simp add: list_all_iff)
  qed
  then have "filter is_file_event (dropWhile (\<lambda>e. \<not> is_toolchain_event e) X) = []"
    by (simp add: filter_empty_conv)
  ultimately show ?thesis
    by (simp add: X(1))
qed

section \<open>Files first, toolchain last\<close>

text \<open>
  Claim C6. In every run of \<^verbatim>\<open>create_package\<close> no file is opened, written or copied
  once the first toolchain call (pip, \<^verbatim>\<open>os.system\<close>, package discovery, \<^verbatim>\<open>setup\<close>)
  has started, and the toolchain steps leave every file as the three file blocks left
  it. So whenever a toolchain call was made at all, the three blocks had succeeded: the
  manifest holds the manifest text, a requested license file holds the fetched text, and
  \<^verbatim>\<open>README.md\<close> exists, whether the build step then fails or not.
\<close>

theorem files_before_toolchain:
  "filter is_file_event
     (dropWhile (\<lambda>e. \<not> is_toolchain_event e) (log (snd (create_package E fs d t l r)))) = []
   \<and> files (snd (create_package E fs d t l r)) = files (snd (materialize_files E fs d t l r))
   \<and> (list_ex is_toolchain_event (log (snd (create_package E fs d t l r))) \<longrightarrow>
        fst (materialize_files E fs d t l r) = None
      \<and> files (snd (create_package E fs d t l r)) (manifest_path d) = Some t
      \<and> (\<forall>lt. l = Some lt \<and> lt \<noteq> [] \<longrightarrow>
            (\<exists>url txt. LICENSE_TEMPLATES (lower lt) = Some url \<and> http_get E url = Inr (200, txt)
               \<and> files (snd (create_package E fs d t l r)) (license_path d) = Some txt))
      \<and> files (snd (create_package E fs d t l r)) (readme_file d) \<noteq> None)"
proof (intro conjI impI allI)
  show "filter is_file_event
     (dropWhile (\<lambda>e. \<not> is_toolchain_event e) (log (snd (create_package E fs d t l r)))) = []"
    by (rule no_file_event_after_toolchain)
  show "files (snd (create_package E fs d t l r)) = files (snd (materialize_files E fs d t l r))"
    by (rule create_package_files)
next
  assume "list_ex is_toolchain_event (log (snd (create_package E fs d t l r)))"
  then have ok: "fst (materialize_files E fs d t l r) = None"
    by (rule toolchain_needs_files)
  then show "fst (materialize_files E fs d t l r) = None" .
  from ok show "files (snd (create_package E fs d t l r)) (manifest_path d) = Some t"
    by (simp add: create_package_files materialize_files_success)
  from ok show "files (snd (create_package E fs d t l r)) (readme_file d) \<noteq> None"
    by (simp add: create_package_files materialize_files_success)
  show "\<exists>url txt. LICENSE_TEMPLATES (lower lt) = Some url \<and> http_get E url = Inr (200, txt)
               \<and> files (snd (create_package E fs d t l r)) (license_path d) = Some txt"
    if "l = Some lt \<and> lt \<noteq> []" for lt
    using materialize_files_success(2) [OF ok, of lt] that
    by (simp add: create_package_files)
qed

text \<open>The build step raises \<^verbatim>\<open>SystemExit\<close>, which no handler catches: the files are there.\<close>

theorem files_before_toolchain_witness:
  "list_ex is_toolchain_event
     (log (snd (create_package
        (demo_env\<lparr>find_packages := \<lambda>p. [''pkg''],
                   distutils_setup := \<lambda>n ps. Some (Exc SystemExit ''error: invalid command'')\<rparr>)
        Map.empty ''proj'' ''name = demo'' (Some ''mit'') None)))
   \<and> fst (create_package
        (demo_env\<lparr>find_packages := \<lambda>p. [''pkg''],
                   distutils_setup := \<lambda>n ps. Some (Exc SystemExit ''error: invalid command'')\<rparr>)
        Map.empty ''proj'' ''name = demo'' (Some ''mit'') None) =
       Some (Exc SystemExit ''error: invalid command'')
   \<and> files (snd (create_package
        (demo_env\<lparr>find_packages := \<lambda>p. [''pkg''],
                   distutils_setup := \<lambda>n ps. Some (Exc SystemExit ''error: invalid command'')\<rparr>)
        Map.empty ''proj'' ''name = demo'' (Some ''mit'') None)) (manifest_path ''proj'') =
       Some ''name = demo''
   \<and> files (snd (create_package
        (demo_env\<lparr>find_packages := \<lambda>p. [''pkg''],
                   distutils_setup := \<lambda>n ps. Some (Exc SystemExit ''error: invalid command'')\<rparr>)
        Map.empty ''proj'' ''name = demo'' (Some ''mit'') None)) (readme_file ''proj'') \<noteq> None"
proof -
  let ?E = "demo_env\<lparr>find_packages := \<lambda>p. [''pkg''],
                   distutils_setup := \<lambda>n ps. Some (Exc SystemExit ''error: invalid command'')\<rparr>"
  let ?run = "create_package ?E Map.empty ''proj'' ''name = demo'' (Some ''mit'') None"
  have t: "list_ex is_toolchain_event (log (snd ?run))"
    by code_simp
  have e: "fst ?run = Some (Exc SystemExit ''error: invalid command'')"
    by code_simp
  from files_before_toolchain [of ?E Map.empty "''proj''" "''name = demo''" "Some ''mit''" None] t e
  show ?thesis
    by blast
qed

section \<open>The shape of the log of the file blocks\<close>

lemma and_then_shape:
  assumes "\<And>s. \<exists>X. log (snd (f s)) = log s @ X \<and> Sh X" and "Sh []"
  shows "\<exists>X. log (snd (and_then r f)) = log (snd r) @ X \<and> Sh X"
proof (cases r)
  case (Pair x s)
  show ?thesis
  proof (cases x)
    case None
    with Pair assms(1) [of s] show ?thesis
      by simp
  next
    case (Some e)
    with Pair assms(2) show ?thesis
      by auto
  qed
qed

lemma write_manifest_shape:
  "log (snd (write_manifest E d t s)) =
   log s @ (if writable E (manifest_path d)
            then [Open (manifest_path d), Write (manifest_path d) t] else [])"
  by (simp add: write_manifest_def open_w_def file_write_def emit_def)

lemma create_license_shape:
  "\<exists>X. log (snd (create_license E d l s)) = log s @ X \<and>
     (X = [] \<or> (\<exists>u. X = [HttpGet u]) \<or>
      (\<exists>u txt. X = [HttpGet u, Open (license_path d), Write (license_path d) txt]))"
  by (simp add: create_license_def open_w_def file_write_def emit_def
           split: option.splits sum.splits prod.splits)

lemma create_readme_shape:
  "\<exists>Y. log (snd (create_readme E d t r s)) = log s @ Y \<and>
     (Y = [] \<or> Y = [Open (readme_file d)] \<or>
      (\<exists>c. Y = [Open (readme_file d), Write (readme_file d) c]) \<or>
      (\<exists>src. Y = [Copy src (readme_file d)]))"
  by (simp add: create_readme_def copyfile_def open_w_def file_write_def emit_def
           split: option.splits sum.splits)

lemma materialize_files_shape:
  "\<exists>X Y. log (snd (materialize_files E fs d t l r)) =
     (if writable E (manifest_path d)
      then [Open (manifest_path d), Write (manifest_path d) t] else []) @ X @ Y
   \<and> (X = [] \<or> (\<exists>u. X = [HttpGet u]) \<or>
      (\<exists>u txt. X = [HttpGet u, Open (license_path d), Write (license_path d) txt]))
   \<and> (Y = [] \<or> Y = [Open (readme_file d)] \<or>
      (\<exists>c. Y = [Open (readme_file d), Write (readme_file d) c]) \<or>
      (\<exists>src. Y = [Copy src (readme_file d)]))"
proof -
  let ?r1 = "write_manifest E d t \<lparr>files = fs, log = []\<rparr>"
  let ?r2 = "and_then ?r1 (create_license E d l)"
  from and_then_shape [of "create_license E d l" _ ?r1, OF create_license_shape]
  obtain X where X: "log (snd ?r2) = log (snd ?r1) @ X"
    "X = [] \<or> (\<exists>u. X = [HttpGet u]) \<or>
      (\<exists>u txt. X = [HttpGet u, Open (license_path d), Write (license_path d) txt])"
    by auto
  from and_then_shape [of "create_readme E d t r" _ ?r2, OF create_readme_shape]
  obtain Y where Y: "log (snd (and_then ?r2 (create_readme E d t r))) = log (snd ?r2) @ Y"
    "Y = [] \<or> Y = [Open (readme_file d)] \<or>
      (\<exists>c. Y = [Open (readme_file d), Write (readme_file d) c]) \<or>
      (\<exists>src. Y = [Copy src (readme_file d)])"
    by auto
  from X(1) Y(1) have "log (snd (materialize_files E fs d t l r)) =
     (if writable E (manifest_path d)
      then [Open (manifest_path d), Write (manifest_path d) t] else []) @ X @ Y"
    by (simp add: materialize_files_def write_manifest_shape)
  with X(2) Y(2) show ?thesis
    by blast
qed

lemma is_tool_not_creates: "is_toolchain_event e \<or> is_print_event e \<Longrightarrow> \<not> creates p e"
  by (cases e) simp_all

lemma touches_of_run:
  "filter (touches p) (log (snd (create_package E fs d t l r))) =
   filter (touches p) (log (snd (materialize_files E fs d t l r)))"
  by (rule log_extends_filter [OF create_package_log is_tool_not_touches])

lemma creates_of_run:
  "filter (creates p) (log (snd (create_package E fs d t l r))) =
   filter (creates p) (log (snd (materialize_files E fs d t l r)))"
  by (rule log_extends_filter [OF create_package_log is_tool_not_creates])

lemma neq_sym_simps [simp]:
  "p \<noteq> manifest_path d \<Longrightarrow> manifest_path d \<noteq> p"
  "p \<noteq> license_path d \<Longrightarrow> license_path d \<noteq> p"
  "p \<noteq> readme_file d \<Longrightarrow> readme_file d \<noteq> p"
  by auto

section \<open>One creation per file\<close>

text \<open>
  Claim C9. In the log of any run of \<^verbatim>\<open>create_package\<close>, the events on any one file
  are a single creation and nothing after it: an open followed by at most one write, or
  one copy. Only the manifest, the license file and \<^verbatim>\<open>README.md\<close> of the project
  directory are touched at all. The manifest is created exactly once when it can be
  opened for writing (and not at all otherwise); the license file and \<^verbatim>\<open>README.md\<close>
  are created at most once each.
\<close>

theorem one_creation_per_file:
  "(\<forall>p. single_creation p (filter (touches p) (log (snd (create_package E fs d t l r)))))
   \<and> (\<forall>p. p \<notin> {manifest_path d, license_path d, readme_file d} \<longrightarrow>
          filter (touches p) (log (snd (create_package E fs d t l r))) = [])
   \<and> length (filter (creates (manifest_path d)) (log (snd (create_package E fs d t l r)))) =
       (if writable E (manifest_path d) then 1 else 0)
   \<and> length (filter (creates (license_path d)) (log (snd (create_package E fs d t l r)))) \<le> 1
   \<and> length (filter (creates (readme_file d)) (log (snd (create_package E fs d t l r)))) \<le> 1"
proof -
  let ?m = "manifest_path d" and ?lp = "license_path d" and ?rf = "readme_file d"
  let ?M = "if writable E ?m then [Open ?m, Write ?m t] else []"
  from materialize_files_shape [of E fs d t l r] obtain X Y
    where L: "log (snd (materialize_files E fs d t l r)) = ?M @ X @ Y"
      and X: "X = [] \<or> (\<exists>u. X = [HttpGet u]) \<or> (\<exists>u txt. X = [HttpGet u, Open ?lp, Write ?lp txt])"
      and Y: "Y = [] \<or> Y = [Open ?rf] \<or> (\<exists>c. Y = [Open ?rf, Write ?rf c]) \<or>
              (\<exists>src. Y = [Copy src ?rf])"
    by blast
  have tm: "filter (touches p) ?M = (if p = ?m \<and> writable E ?m then ?M else [])" for p
    by auto
  have tx: "filter (touches p) X = (if p = ?lp then filter is_file_event X else [])" for p
    using X by auto
  have ty: "filter (touches p) Y = (if p = ?rf then Y else [])" for p
    using Y by auto
  have 1: "single_creation p (filter (touches p) (log (snd (create_package E fs d t l r))))" for p
  proof -
    consider "p = ?m" | "p = ?lp" | "p = ?rf" | "p \<noteq> ?m" "p \<noteq> ?lp" "p \<noteq> ?rf"
      by blast
    then show ?thesis
    proof cases
      case 1
      then show ?thesis
        by (simp add: touches_of_run L tm tx ty)
    next
      case 2
      with X show ?thesis
        by (auto simp: touches_of_run L tm tx ty)
    next
      case 3
      with Y show ?thesis
        by (auto simp: touches_of_run L tm tx ty)
    next
      case 4
      then show ?thesis
        by (simp add: touches_of_run L tm tx ty)
    qed
  qed
  have 2: "filter (touches p) (log (snd (create_package E fs d t l r))) = []"
    if "p \<notin> {?m, ?lp, ?rf}" for p
    using that by (simp add: touches_of_run L tm tx ty)
  have 3: "length (filter (creates ?m) (log (snd (create_package E fs d t l r)))) =
       (if writable E ?m then 1 else 0)"
    using X Y by (auto simp: creates_of_run L)
  have 4: "length (filter (creates ?lp) (log (snd (create_package E fs d t l r)))) \<le> 1"
    using X Y by (auto simp: creates_of_run L)
  have 5: "length (filter (creates ?rf) (log (snd (create_package E fs d t l r)))) \<le> 1"
    using X Y by (auto simp: creates_of_run L)
  from 1 2 3 4 5 show ?thesis
    by blast
qed

theorem one_creation_per_file_witness:
  "filter (touches (license_path ''proj''))
     (log (snd (create_package demo_env Map.empty ''proj'' ''name = demo'' (Some ''gpl-3.0'') None))) =
     [Open (license_path ''proj''), Write (license_path ''proj'') ''LICENSE TEXT'']
   \<and> single_creation (license_path ''proj'')
     (filter (touches (license_path ''proj''))
       (log (snd (create_package demo_env Map.empty ''proj'' ''name = demo'' (Some ''gpl-3.0'') None))))
   \<and> filter (touches ''elsewhere'')
       (log (snd (create_package demo_env Map.empty ''proj'' ''name = demo'' (Some ''gpl-3.0'') None))) = []
   \<and> length (filter (creates (manifest_path ''proj''))
       (log (snd (create_package demo_env Map.empty ''proj'' ''name = demo'' (Some ''gpl-3.0'') None)))) = 1"
proof -
  let ?L = "log (snd (create_package demo_env Map.empty ''proj'' ''name = demo'' (Some ''gpl-3.0'') None))"
  have a: "filter (touches (license_path ''proj'')) ?L =
     [Open (license_path ''proj''), Write (license_path ''proj'') ''LICENSE TEXT'']"
    by code_simp
  have b: "''elsewhere'' \<notin> {manifest_path ''proj'', license_path ''proj'', readme_file ''proj''}"
    by code_simp
  have w: "writable demo_env (manifest_path ''proj'')"
    by (simp add: demo_env_def)
  from one_creation_per_file [of demo_env Map.empty "''proj''" "''name = demo''" "Some ''gpl-3.0''" None]
    a b w
  show ?thesis
    by simp
qed

section \<open>The two handlers\<close>

lemma log_extends_subset: "log_extends P s s' \<Longrightarrow> set (log s) \<subseteq> set (log s')"
  by (auto simp: log_extends_def)

lemma upgrade_pip_caught:
  assumes "\<forall>e. import_pip E = Some e \<longrightarrow> isinstance_ImportError e"
    and "\<forall>e. pip_main E pip_args = Some e \<longrightarrow> isinstance_ImportError e"
  shows "fst (upgrade_pip E s) = None"
    and "import_pip E \<noteq> None \<or> pip_main E pip_args \<noteq> None \<Longrightarrow>
         Print pip_warning \<in> set (log (snd (upgrade_pip E s)))"
  using assms
  by (auto simp: upgrade_pip_def except_ImportError_def split: option.splits)

lemma upgrade_pip_propagates:
  "import_pip E = Some e \<Longrightarrow> \<not> isinstance_ImportError e \<Longrightarrow> upgrade_pip E s = (Some e, s)"
  "import_pip E = None \<Longrightarrow> pip_main E pip_args = Some e \<Longrightarrow> \<not> isinstance_ImportError e \<Longrightarrow>
   upgrade_pip E s = (Some e, emit (PipMain pip_args) s)"
  by (simp_all add: upgrade_pip_def except_ImportError_def)

lemma generate_dist_caught:
  assumes "\<forall>e n ps. distutils_setup E n ps = Some e \<longrightarrow> isinstance_Exception e"
  shows "fst (generate_dist E d s) = None"
    and "find_packages E d = [] \<Longrightarrow>
         Print ''Error generating distribution files: list index out of range''
           \<in> set (log (snd (generate_dist E d s)))"
    and "find_packages E d \<noteq> [] \<Longrightarrow>
         distutils_setup E (hd (find_packages E d)) (find_packages E d) = Some e \<Longrightarrow>
         Print (''Error generating distribution files: '' @ exc_str e)
           \<in> set (log (snd (generate_dist E d s)))"
  using assms
  by (auto simp: generate_dist_def except_Exception_def list_index_def Let_def hd_conv_nth
           split: option.splits)

lemma generate_dist_propagates:
  "find_packages E d \<noteq> [] \<Longrightarrow>
   distutils_setup E (hd (find_packages E d)) (find_packages E d) = Some e \<Longrightarrow>
   \<not> isinstance_Exception e \<Longrightarrow> fst (generate_dist E d s) = Some e"
  by (simp add: generate_dist_def except_Exception_def list_index_def Let_def hd_conv_nth)

text \<open>
  Claim C5, as the code has it. When the three file blocks have succeeded, an
  \<^verbatim>\<open>ImportError\<close> (or a subclass) from importing or calling pip, and any exception
  that derives from \<^verbatim>\<open>Exception\<close> from the build step (the \<^verbatim>\<open>IndexError\<close> of an empty
  package list included), is handled inside \<^verbatim>\<open>create_package\<close>: the run returns
  normally, its last output is the success message, and the warning, respectively the
  error message with the text of the exception, has been printed.
\<close>

theorem toolchain_failures_caught:
  assumes "fst (materialize_files E fs d t l r) = None"
    and "\<forall>e. import_pip E = Some e \<longrightarrow> isinstance_ImportError e"
    and "\<forall>e. pip_main E pip_args = Some e \<longrightarrow> isinstance_ImportError e"
    and "\<forall>e n ps. distutils_setup E n ps = Some e \<longrightarrow> isinstance_Exception e"
  shows "fst (create_package E fs d t l r) = None
    \<and> last (log (snd (create_package E fs d t l r))) =
        Print (''Package created successfully in: '' @ d)
    \<and> (import_pip E \<noteq> None \<or> pip_main E pip_args \<noteq> None \<longrightarrow>
        Print pip_warning \<in> set (log (snd (create_package E fs d t l r))))
    \<and> (find_packages E d = [] \<longrightarrow>
        Print ''Error generating distribution files: list index out of range''
          \<in> set (log (snd (create_package E fs d t l r))))
    \<and> (\<forall>e. find_packages E d \<noteq> [] \<and>
            distutils_setup E (hd (find_packages E d)) (find_packages E d) = Some e \<longrightarrow>
        Print (''Error generating distribution files: '' @ exc_str e)
          \<in> set (log (snd (create_package E fs d t l r))))"
proof -
  define s3 where "s3 = snd (materialize_files E fs d t l r)"
  define s4 where "s4 = snd (upgrade_pip E s3)"
  define s5 where "s5 = snd (generate_dist E d s4)"
  define s6 where "s6 = emit (Print (''Package created successfully in: '' @ d)) s5"
  from assms(1) have m: "materialize_files E fs d t l r = (None, s3)"
    by (simp add: s3_def prod_eq_iff)
  from upgrade_pip_caught(1) [OF assms(2,3)] have u: "upgrade_pip E s3 = (None, s4)"
    by (simp add: s4_def prod_eq_iff)
  from generate_dist_caught(1) [OF assms(4)] have g: "generate_dist E d s4 = (None, s5)"
    by (simp add: s5_def prod_eq_iff)
  from m u g have run: "create_package E fs d t l r = (None, s6)"
    by (simp add: create_package_def report_success_def s6_def)
  have 45: "set (log s4) \<subseteq> set (log s5)"
    unfolding s5_def by (rule log_extends_subset [OF generate_dist_log])
  have 56: "set (log s5) \<subseteq> set (log s6)"
    by (auto simp: s6_def)
  have a: "Print pip_warning \<in> set (log s6)"
    if "import_pip E \<noteq> None \<or> pip_main E pip_args \<noteq> None"
    using upgrade_pip_caught(2) [OF assms(2,3) that, of s3] 45 56
    by (auto simp: s4_def)
  have b: "Print ''Error generating distribution files: list index out of range'' \<in> set (log s6)"
    if "find_packages E d = []"
    using generate_dist_caught(2) [OF assms(4) that, of s4] 56
    by (auto simp: s5_def)
  have c: "Print (''Error generating distribution files: '' @ exc_str e) \<in> set (log s6)"
    if "find_packages E d \<noteq> [] \<and>
        distutils_setup E (hd (find_packages E d)) (find_packages E d) = Some e" for e
    using generate_dist_caught(3) [OF assms(4), of d e s4] that 56
    by (auto simp: s5_def)
  have l: "last (log s6) = Print (''Package created successfully in: '' @ d)"
    by (simp add: s6_def)
  from a b c l show ?thesis
    unfolding run by simp
qed

theorem toolchain_failures_caught_witness:
  "fst (materialize_files
          (demo_env\<lparr>import_pip := Some (Exc ModuleNotFoundError ''No module named pip''),
                     find_packages := \<lambda>p. [''pkg''],
                     distutils_setup := \<lambda>n ps. Some (Exc ValueError ''bad'')\<rparr>)
          Map.empty ''proj'' ''name = demo'' None None) = None
   \<and> fst (create_package
          (demo_env\<lparr>import_pip := Some (Exc ModuleNotFoundError ''No module named pip''),
                     find_packages := \<lambda>p. [''pkg''],
                     distutils_setup := \<lambda>n ps. Some (Exc ValueError ''bad'')\<rparr>)
          Map.empty ''proj'' ''name = demo'' None None) = None
   \<and> Print pip_warning \<in> set (log (snd (create_package
          (demo_env\<lparr>import_pip := Some (Exc ModuleNotFoundError ''No module named pip''),
                     find_packages := \<lambda>p. [''pkg''],
                     distutils_setup := \<lambda>n ps. Some (Exc ValueError ''bad'')\<rparr>)
          Map.empty ''proj'' ''name = demo'' None None)))
   \<and> Print ''Error generating distribution files: bad'' \<in> set (log (snd (create_package
          (demo_env\<lparr>import_pip := Some (Exc ModuleNotFoundError ''No module named pip''),
                     find_packages := \<lambda>p. [''pkg''],
                     distutils_setup := \<lambda>n ps. Some (Exc ValueError ''bad'')\<rparr>)
          Map.empty ''proj'' ''name = demo'' None None)))"
proof -
  let ?E = "demo_env\<lparr>import_pip := Some (Exc ModuleNotFoundError ''No module named pip''),
                     find_packages := \<lambda>p. [''pkg''],
                     distutils_setup := \<lambda>n ps. Some (Exc ValueError ''bad'')\<rparr>"
  have m: "fst (materialize_files ?E Map.empty ''proj'' ''name = demo'' None None) = None"
    by code_simp
  have i: "\<forall>e. import_pip ?E = Some e \<longrightarrow> isinstance_ImportError e"
    by simp
  have p: "\<forall>e. pip_main ?E pip_args = Some e \<longrightarrow> isinstance_ImportError e"
    by (simp add: demo_env_def)
  have b: "\<forall>e n ps. distutils_setup ?E n ps = Some e \<longrightarrow> isinstance_Exception e"
    by simp
  from toolchain_failures_caught [OF m i p b] m
  show ?thesis
    by simp
qed

text \<open>
  The claim as it is worded fails. With a pip whose module has no \<^verbatim>\<open>main\<close>, the call
  raises \<^verbatim>\<open>AttributeError\<close>, which \<^verbatim>\<open>except ImportError\<close> lets through; and
  \<^verbatim>\<open>SystemExit\<close> from \<^verbatim>\<open>setup\<close> passes \<^verbatim>\<open>except Exception\<close>. In both runs the
  files were written, the exception reaches the caller and no success is reported.
\<close>

theorem toolchain_failure_counterexample:
  "fst (materialize_files
          (demo_env\<lparr>pip_main := \<lambda>a. Some (Exc AttributeError ''no attribute main'')\<rparr>)
          Map.empty ''proj'' ''name = demo'' None None) = None
   \<and> fst (create_package
          (demo_env\<lparr>pip_main := \<lambda>a. Some (Exc AttributeError ''no attribute main'')\<rparr>)
          Map.empty ''proj'' ''name = demo'' None None) =
       Some (Exc AttributeError ''no attribute main'')
   \<and> Print ''Package created successfully in: proj'' \<notin> set (log (snd (create_package
          (demo_env\<lparr>pip_main := \<lambda>a. Some (Exc AttributeError ''no attribute main'')\<rparr>)
          Map.empty ''proj'' ''name = demo'' None None)))
   \<and> fst (materialize_files
          (demo_env\<lparr>find_packages := \<lambda>p. [''pkg''],
                     distutils_setup := \<lambda>n ps. Some (Exc SystemExit ''error: invalid command'')\<rparr>)
          Map.empty ''proj'' ''name = demo'' None None) = None
   \<and> fst (create_package
          (demo_env\<lparr>find_packages := \<lambda>p. [''pkg''],
                     distutils_setup := \<lambda>n ps. Some (Exc SystemExit ''error: invalid command'')\<rparr>)
          Map.empty ''proj'' ''name = demo'' None None) =
       Some (Exc SystemExit ''error: invalid command'')"
  by code_simp

section \<open>Copying a README\<close>






section \<open>Lines and fields\<close>



text \<open>The first line of a text is what stands before its first line boundary.\<close>

lemma splitlines_from_no_break:
  assumes "\<forall>c\<in>set line. \<not> is_linebreak c"
  shows "splitlines_from cur line = (if cur = [] \<and> line = [] then [] else [rev cur @ line])"
  using assms by (induction line arbitrary: cur) auto

lemma hd_splitlines_from:
  assumes "\<forall>c\<in>set line. \<not> is_linebreak c" and "is_linebreak b"
  shows "hd (splitlines_from cur (line @ b # rest)) = rev cur @ line"
  using assms by (induction line arbitrary: cur) (auto split: list.splits)

lemma splitlines_one_line:
  "line \<noteq> [] \<Longrightarrow> \<forall>c\<in>set line. \<not> is_linebreak c \<Longrightarrow> splitlines line = [line]"
  by (simp add: splitlines_def splitlines_from_no_break)

lemma hd_splitlines:
  "\<forall>c\<in>set line. \<not> is_linebreak c \<Longrightarrow> is_linebreak b \<Longrightarrow>
   hd (splitlines (line @ b # rest)) = line"
  by (simp add: splitlines_def hd_splitlines_from)












section \<open>A manifest with no field to take the title from\<close>







section \<open>The synthesized README\<close>






section \<open>The entry point\<close>

lemma two_arguments: "arity_error (Suc (Suc 0)) = missing_arguments"
proof -
  have "arity_error 2 = missing_arguments"
    by code_simp
  then show ?thesis
    by (simp add: numeral_2_eq_2)
qed

lemma resolve_toml_ignores_options [simp]:
  "resolve_toml E fs (a\<lparr>license := l, readme := r\<rparr>) = resolve_toml E fs a"
  by (simp add: resolve_toml_def split: option.splits)

text \<open>
  Claim C3. \<^verbatim>\<open>main\<close> calls \<^verbatim>\<open>create_package\<close> with two positional arguments, the
  project directory and the resolved manifest text; the parsed \<^verbatim>\<open>--license\<close> and
  \<^verbatim>\<open>--readme\<close> values are in neither, and the outcome of \<^verbatim>\<open>main\<close> is the same
  whatever they are. As \<^verbatim>\<open>create_package\<close> has four required parameters, the call
  raises \<^verbatim>\<open>TypeError\<close> before anything is written.
\<close>

theorem main_drops_license_and_readme:
  "main E fs (a\<lparr>license := l, readme := r\<rparr>) = main E fs a
   \<and> (\<forall>tc. main_call_args (a\<lparr>license := l, readme := r\<rparr>) tc =
              [PyStr (project_dir a), PyStr tc])
   \<and> main E fs a =
       (case resolve_toml E fs a of
          Inl e \<Rightarrow> (Some e, \<lparr>files = fs, log = []\<rparr>)
        | Inr tc \<Rightarrow> call_create_package E fs [PyStr (project_dir a), PyStr tc])
   \<and> main E fs a =
       (case resolve_toml E fs a of
          Inl e \<Rightarrow> (Some e, \<lparr>files = fs, log = []\<rparr>)
        | Inr tc \<Rightarrow> (Some missing_arguments, \<lparr>files = fs, log = []\<rparr>))
   \<and> fst (main E fs a) \<noteq> None
   \<and> snd (main E fs a) = \<lparr>files = fs, log = []\<rparr>"
proof -
  have 1: "main E fs (a\<lparr>license := l, readme := r\<rparr>) = main E fs a"
    by (simp add: main_def main_call_args_def split: sum.splits)
  have 2: "main_call_args (a\<lparr>license := l, readme := r\<rparr>) tc =
      [PyStr (project_dir a), PyStr tc]" for tc
    by (simp add: main_call_args_def)
  have 3: "main E fs a =
       (case resolve_toml E fs a of
          Inl e \<Rightarrow> (Some e, \<lparr>files = fs, log = []\<rparr>)
        | Inr tc \<Rightarrow> call_create_package E fs [PyStr (project_dir a), PyStr tc])"
    by (simp add: main_def main_call_args_def split: sum.splits)
  have 4: "main E fs a =
       (case resolve_toml E fs a of
          Inl e \<Rightarrow> (Some e, \<lparr>files = fs, log = []\<rparr>)
        | Inr tc \<Rightarrow> (Some missing_arguments, \<lparr>files = fs, log = []\<rparr>))"
    by (simp add: main_def main_call_args_def two_arguments split: sum.splits)
  have 5: "fst (main E fs a) \<noteq> None" "snd (main E fs a) = \<lparr>files = fs, log = []\<rparr>"
    unfolding 4 by (simp_all split: sum.splits)
  from 1 2 3 4 5 show ?thesis
    by blast
qed

theorem main_drops_license_and_readme_witness:
  "main demo_env Map.empty
     \<lparr>project_dir = ''proj'', toml = ''name = demo'', license = Some ''mit'',
      readme = Some ''docs/README.md''\<rparr> =
   main demo_env Map.empty
     \<lparr>project_dir = ''proj'', toml = ''name = demo'', license = None, readme = None\<rparr>
   \<and> main demo_env Map.empty
     \<lparr>project_dir = ''proj'', toml = ''name = demo'', license = Some ''mit'',
      readme = Some ''docs/README.md''\<rparr> =
     (Some missing_arguments, \<lparr>files = Map.empty, log = []\<rparr>)"
proof -
  let ?a = "\<lparr>project_dir = ''proj'', toml = ''name = demo'', license = None, readme = None\<rparr>"
  have r: "resolve_toml demo_env Map.empty ?a = Inr ''name = demo''"
    by (simp add: resolve_toml_def)
  from main_drops_license_and_readme
    [where E = demo_env and fs = Map.empty and a = ?a and l = "Some ''mit''"
       and r = "Some ''docs/README.md''"] r
  show ?thesis
    by (simp add: two_arguments)
qed

end
